theory Spec2Isabelle
  imports Complex_Main
begin

section \<open>The paginated media gallery\<close>

text \<open>
  The component \<open>PaginatedMediaGallery\<close> keeps a ref to its scroll container and decides,
  from the container's scroll geometry and the loading flags it receives as props, when to
  ask for the next page of media. Lengths are CSS pixels, JavaScript numbers; they are
  modelled as reals, and only compared, added and subtracted.
\<close>

subsection \<open>Data\<close>

text \<open>
  The fields of the container element that the component reads or writes:
  the scroll geometry, the two widths whose difference is the scrollbar's width, the computed
  \<open>padding-left\<close> (what \<open>parseFloat(getComputedStyle(..).getPropertyValue('padding-left'))\<close>
  yields) and the inline \<open>padding-right\<close> style, in pixels (\<open>None\<close>: not set).
\<close>

record node =
  scrollTop :: real
  scrollHeight :: real
  clientHeight :: real
  offsetWidth :: real
  clientWidth :: real
  paddingLeft :: real
  stylePaddingRight :: "real option"

text \<open>
  The props that the component's effects depend on. \<open>searchTerm\<close> and
  \<open>selectedCategoryId\<close> are optional strings (\<open>None\<close> is \<open>undefined\<close>). The callbacks
  \<open>setNextPage\<close> and \<open>onInsert\<close> are not data: a call of \<open>setNextPage\<close> is recorded in
  the list of calls that an evaluation returns.
\<close>

record props =
  providerType :: string
  searchTerm :: "string option"
  selectedCategoryId :: "string option"
  isMediaLoading :: bool
  isMediaLoaded :: bool
  hasMore :: bool

datatype target = Container | Window

datatype call =
    SetNextPage
  | ScrollTo real real
  | AddEventListener target string
  | RemoveEventListener target string

datatype js_error = TypeError

definition ROOT_MARGIN :: real where
  "ROOT_MARGIN = 300"

subsection \<open>loadNextPageIfNeeded\<close>

text \<open>
  The callback of lines 92 to 112. \<open>current\<close> is \<open>refContainer.current\<close>: \<open>None\<close> when no
  element is attached. The result is the list of calls the evaluation made, or the
  exception it raised; reading a property of \<open>null\<close> would be a \<open>TypeError\<close>, which the
  guard in front excludes.
\<close>

definition loadNextPageIfNeeded :: "node option \<Rightarrow> props \<Rightarrow> js_error + call list" where
  "loadNextPageIfNeeded current p =
     (if current = None \<or> \<not> hasMore p \<or> \<not> isMediaLoaded p \<or> isMediaLoading p
      then Inr []
      else case current of
        None \<Rightarrow> Inl TypeError
      | Some node \<Rightarrow>
          let bottom =
            (scrollHeight node - scrollTop node \<le> clientHeight node + ROOT_MARGIN) in
          if bottom then Inr [SetNextPage]
          else if clientHeight node = scrollHeight node then Inr [SetNextPage]
          else Inr [])"

text \<open>The number of times an evaluation invoked \<open>setNextPage\<close>; an exception invokes nothing.\<close>

definition nextPageCalls :: "js_error + call list \<Rightarrow> nat" where
  "nextPageCalls r = (case r of Inl _ \<Rightarrow> 0 | Inr cs \<Rightarrow> length (filter (\<lambda>c. c = SetNextPage) cs))"

subsection \<open>Effects and their dependency arrays\<close>

text \<open>
  React runs an effect after the first render (mount) and after each later render whose
  dependency array differs from that of the render before. \<open>prev\<close> is the dependency
  array of the previous render, \<open>None\<close> before the mount.
\<close>

definition depsChanged :: "'d option \<Rightarrow> 'd \<Rightarrow> bool" where
  "depsChanged prev cur = (case prev of None \<Rightarrow> True | Some d \<Rightarrow> d \<noteq> cur)"

text \<open>
  The effect of lines 115 to 117, \<open>refContainer.current?.scrollTo(0, 0)\<close> with the
  dependencies \<open>[searchTerm, selectedCategoryId]\<close>: first its body, then the effect as React
  runs it after a render with props \<open>p\<close>.
\<close>

definition scrollToTop :: "node option \<Rightarrow> js_error + call list" where
  "scrollToTop current = (case current of None \<Rightarrow> Inr [] | Some n \<Rightarrow> Inr [ScrollTo 0 0])"

definition scrollResetEffect ::
  "(string option \<times> string option) option \<Rightarrow> props \<Rightarrow> node option \<Rightarrow> js_error + call list" where
  "scrollResetEffect prevDeps p current =
     (if depsChanged prevDeps (searchTerm p, selectedCategoryId p) then scrollToTop current
      else Inr [])"

text \<open>
  The body of the effect of lines 141 to 154: the listeners it attaches, and the cleanup it
  returns (\<open>None\<close> for \<open>undefined\<close>; otherwise the calls the cleanup will make).
\<close>

definition listenerEffect :: "node option \<Rightarrow> js_error + (call list \<times> call list option)" where
  "listenerEffect current =
     (case current of
        None \<Rightarrow> Inr ([], None)
      | Some n \<Rightarrow>
          Inr ([AddEventListener Container ''scroll'', AddEventListener Window ''resize''],
               Some [RemoveEventListener Container ''scroll'',
                     RemoveEventListener Window ''resize'']))"

subsection \<open>Scrollbar width and padding\<close>

text \<open>
  \<open>refContainer.current\<close> and the state \<open>scrollbarWidth\<close> (\<open>useState(0)\<close>). The ref holds
  the element; a write to the element's style is a write through the ref.
\<close>

record container_state =
  refContainer :: "node option"
  scrollbarWidth :: real

definition initialContainer :: container_state where
  "initialContainer = \<lparr>refContainer = None, scrollbarWidth = 0\<rparr>"

text \<open>The callback ref of lines 68 to 74.\<close>

definition refCallbackContainer :: "node option \<Rightarrow> container_state \<Rightarrow> container_state" where
  "refCallbackContainer element s =
     (let s' = s\<lparr>refContainer := element\<rparr> in
      case element of
        None \<Rightarrow> s'
      | Some e \<Rightarrow> s'\<lparr>scrollbarWidth := offsetWidth e - clientWidth e\<rparr>)"

text \<open>
  The layout effect of lines 79 to 90. Its body returns at once when \<open>scrollbarWidth\<close> is
  falsy; otherwise it hands \<open>refContainer.current\<close> to \<open>getComputedStyle\<close>, which throws a
  \<open>TypeError\<close> for \<open>null\<close>, and stores \<open>currentPaddingLeft - scrollbarWidth\<close> pixels as the
  element's \<open>padding-right\<close>. The dependencies are \<open>[scrollbarWidth, refContainer]\<close>, where
  the ref object \<open>refContainer\<close> is the same at every render.
\<close>

definition recalculatePadding :: "container_state \<Rightarrow> js_error + container_state" where
  "recalculatePadding s =
     (if scrollbarWidth s = 0 then Inr s
      else case refContainer s of
        None \<Rightarrow> Inl TypeError
      | Some n \<Rightarrow>
          let currentPaddingLeft = paddingLeft n in
          Inr (s\<lparr>refContainer :=
                 Some (n\<lparr>stylePaddingRight := Some (currentPaddingLeft - scrollbarWidth s)\<rparr>)\<rparr>))"

definition paddingLayoutEffect :: "real option \<Rightarrow> container_state \<Rightarrow> js_error + container_state" where
  "paddingLayoutEffect prevWidth s =
     (if depsChanged prevWidth (scrollbarWidth s) then recalculatePadding s else Inr s)"

text \<open>
  A commit in which the container element \<open>e\<close> is handed to the callback ref, followed by
  the layout effect of the render that the new \<open>scrollbarWidth\<close> causes: the effect's
  previous dependency is the width before the commit.
\<close>

definition commitContainer :: "node \<Rightarrow> container_state \<Rightarrow> js_error + container_state" where
  "commitContainer e s =
     paddingLayoutEffect (Some (scrollbarWidth s)) (refCallbackContainer (Some e) s)"

text \<open>The inline \<open>padding-right\<close> of the container after a commit, if there is one.\<close>

definition paddingRightAfter :: "js_error + container_state \<Rightarrow> real option" where
  "paddingRightAfter r =
     (case r of
        Inl _ \<Rightarrow> None
      | Inr s \<Rightarrow> (case refContainer s of None \<Rightarrow> None | Some n \<Rightarrow> stylePaddingRight n))"

section \<open>Resizing a text element\<close>

text \<open>
  \<open>updateForResizeEvent\<close> of \<open>elements/text/updateForResizeEvent.js\<close>. Of the element only
  \<open>width\<close> is read here. The text measurements \<open>calculateFitTextFontSize\<close> and
  \<open>calculateTextHeight\<close>, the unit conversion \<open>dataPixels\<close> and \<open>resizeRules.minFontSize\<close>
  are imported from other modules: they are parameters. Reading an array beyond its end gives
  \<open>undefined\<close>, here \<open>None\<close>; \<open>undefined !== 0\<close> is true, and a sum with \<open>undefined\<close> is
  \<open>NaN\<close>, which is not greater than 0.
\<close>

record element =
  width :: real

datatype resize_update =
    FontSizeUpdate (fontSize: real) (skipUpdates: bool)
  | HeightUpdate (height: real)

definition jsIndex :: "'a list \<Rightarrow> nat \<Rightarrow> 'a option" where
  "jsIndex xs i = (if i < length xs then Some (xs ! i) else None)"

definition isSizingUp :: "real list option \<Rightarrow> bool" where
  "isSizingUp delta =
     (case delta of
        None \<Rightarrow> True
      | Some d \<Rightarrow>
          (case (jsIndex d 0, jsIndex d 1) of
             (Some d0, Some d1) \<Rightarrow> d0 + d1 > 0
           | _ \<Rightarrow> False))"

definition updateForResizeEvent ::
  "('a element_scheme \<Rightarrow> real \<Rightarrow> real \<Rightarrow> real) \<Rightarrow> ('a element_scheme \<Rightarrow> real \<Rightarrow> real) \<Rightarrow>
   (real \<Rightarrow> real) \<Rightarrow> real \<Rightarrow>
   'a element_scheme \<Rightarrow> real list \<Rightarrow> real \<Rightarrow> real \<Rightarrow> real list option \<Rightarrow> resize_update option" where
  "updateForResizeEvent calculateFitTextFontSize calculateTextHeight dataPixels minFontSize
       el direction newWidth newHeight delta =
     (let isResizingWidth = (jsIndex direction 0 \<noteq> Some 0);
          isResizingHeight = (jsIndex direction 1 \<noteq> Some 0)
      in
      if isResizingHeight then
        let fontSize = calculateFitTextFontSize el
              (if newWidth = 0 then width el else newWidth) newHeight;
            fontSizeInDataPx = dataPixels fontSize
        in Some (FontSizeUpdate fontSizeInDataPx
                   (\<not> isSizingUp delta \<and> fontSizeInDataPx < minFontSize))
      else if isResizingWidth then
        Some (HeightUpdate (dataPixels (calculateTextHeight el newWidth)))
      else None)"

section \<open>Properties of loadNextPageIfNeeded\<close>

text \<open>
  C1. When \<open>hasMore\<close> is false, an evaluation of \<open>loadNextPageIfNeeded\<close> returns normally
  having made no call at all, so \<open>setNextPage\<close> is not invoked, whatever the container
  (present or not) and whatever its \<open>scrollTop\<close>, \<open>scrollHeight\<close> and \<open>clientHeight\<close>.
\<close>

theorem loadNextPageIfNeeded_no_more:
  "\<not> hasMore p \<Longrightarrow>
     loadNextPageIfNeeded r p = Inr [] \<and> nextPageCalls (loadNextPageIfNeeded r p) = 0"
  by (simp add: loadNextPageIfNeeded_def nextPageCalls_def)

theorem loadNextPageIfNeeded_no_more_witness:
  "\<not> hasMore \<lparr>providerType = ''unsplash'', searchTerm = None, selectedCategoryId = None,
       isMediaLoading = False, isMediaLoaded = True, hasMore = False\<rparr> \<and>
   loadNextPageIfNeeded
     (Some \<lparr>scrollTop = 750, scrollHeight = 1000, clientHeight = 200, offsetWidth = 300,
        clientWidth = 285, paddingLeft = 24, stylePaddingRight = None\<rparr>)
     \<lparr>providerType = ''unsplash'', searchTerm = None, selectedCategoryId = None,
       isMediaLoading = False, isMediaLoaded = True, hasMore = False\<rparr> = Inr []"
  using loadNextPageIfNeeded_no_more
    [of "\<lparr>providerType = ''unsplash'', searchTerm = None, selectedCategoryId = None,
          isMediaLoading = False, isMediaLoaded = True, hasMore = False\<rparr>"
        "Some \<lparr>scrollTop = 750, scrollHeight = 1000, clientHeight = 200, offsetWidth = 300,
          clientWidth = 285, paddingLeft = 24, stylePaddingRight = None\<rparr>"]
  by simp

text \<open>
  C2. When \<open>isMediaLoading\<close> is true, an evaluation of \<open>loadNextPageIfNeeded\<close> returns
  normally having made no call: no second request is issued while one is in flight.
\<close>

theorem loadNextPageIfNeeded_while_loading:
  "isMediaLoading p \<Longrightarrow>
     loadNextPageIfNeeded r p = Inr [] \<and> nextPageCalls (loadNextPageIfNeeded r p) = 0"
  by (simp add: loadNextPageIfNeeded_def nextPageCalls_def)

theorem loadNextPageIfNeeded_while_loading_witness:
  "isMediaLoading \<lparr>providerType = ''unsplash'', searchTerm = None, selectedCategoryId = None,
       isMediaLoading = True, isMediaLoaded = True, hasMore = True\<rparr> \<and>
   loadNextPageIfNeeded
     (Some \<lparr>scrollTop = 750, scrollHeight = 1000, clientHeight = 200, offsetWidth = 300,
        clientWidth = 285, paddingLeft = 24, stylePaddingRight = None\<rparr>)
     \<lparr>providerType = ''unsplash'', searchTerm = None, selectedCategoryId = None,
       isMediaLoading = True, isMediaLoaded = True, hasMore = True\<rparr> = Inr []"
  using loadNextPageIfNeeded_while_loading
    [of "\<lparr>providerType = ''unsplash'', searchTerm = None, selectedCategoryId = None,
          isMediaLoading = True, isMediaLoaded = True, hasMore = True\<rparr>"
        "Some \<lparr>scrollTop = 750, scrollHeight = 1000, clientHeight = 200, offsetWidth = 300,
          clientWidth = 285, paddingLeft = 24, stylePaddingRight = None\<rparr>"]
  by simp

text \<open>
  C3 (as stated, refuted). The claim fixes the container (\<open>scrollHeight = 1000\<close>,
  \<open>scrollTop = 750\<close>, \<open>clientHeight = 200\<close>), \<open>hasMore = true\<close> and \<open>isLoading = false\<close>,
  and leaves \<open>isMediaLoaded\<close> open. The guard of line 94 also returns when
  \<open>isMediaLoaded\<close> is false: there, \<open>setNextPage\<close> is invoked zero times, not once.
\<close>

theorem loadNextPageIfNeeded_near_bottom_not_loaded:
  "nextPageCalls (loadNextPageIfNeeded
     (Some \<lparr>scrollTop = 750, scrollHeight = 1000, clientHeight = 200, offsetWidth = 300,
        clientWidth = 285, paddingLeft = 24, stylePaddingRight = None\<rparr>)
     \<lparr>providerType = ''unsplash'', searchTerm = None, selectedCategoryId = None,
       isMediaLoading = False, isMediaLoaded = False, hasMore = True\<rparr>) = 0"
  by (simp add: loadNextPageIfNeeded_def nextPageCalls_def)

text \<open>
  C3 (amended). For a container with \<open>scrollHeight = 1000\<close>, \<open>scrollTop = 750\<close> and
  \<open>clientHeight = 200\<close> (50 from the bottom, within \<open>ROOT_MARGIN = 300\<close>), and with
  \<open>hasMore = true\<close>, \<open>isMediaLoading = false\<close> and \<open>isMediaLoaded = true\<close>, one evaluation
  of \<open>loadNextPageIfNeeded\<close> invokes \<open>setNextPage\<close> exactly once and does nothing else.
\<close>

theorem loadNextPageIfNeeded_near_bottom:
  assumes "scrollHeight n = 1000" and "scrollTop n = 750" and "clientHeight n = 200"
    and "hasMore p" and "\<not> isMediaLoading p" and "isMediaLoaded p"
  shows "loadNextPageIfNeeded (Some n) p = Inr [SetNextPage]
    \<and> nextPageCalls (loadNextPageIfNeeded (Some n) p) = 1"
  using assms by (simp add: loadNextPageIfNeeded_def nextPageCalls_def ROOT_MARGIN_def)

theorem loadNextPageIfNeeded_near_bottom_witness:
  "nextPageCalls (loadNextPageIfNeeded
     (Some \<lparr>scrollTop = 750, scrollHeight = 1000, clientHeight = 200, offsetWidth = 300,
        clientWidth = 285, paddingLeft = 24, stylePaddingRight = None\<rparr>)
     \<lparr>providerType = ''unsplash'', searchTerm = None, selectedCategoryId = None,
       isMediaLoading = False, isMediaLoaded = True, hasMore = True\<rparr>) = 1"
  using loadNextPageIfNeeded_near_bottom
    [of "\<lparr>scrollTop = 750, scrollHeight = 1000, clientHeight = 200, offsetWidth = 300,
          clientWidth = 285, paddingLeft = 24, stylePaddingRight = None\<rparr>"
        "\<lparr>providerType = ''unsplash'', searchTerm = None, selectedCategoryId = None,
          isMediaLoading = False, isMediaLoaded = True, hasMore = True\<rparr>"]
  by (simp add: nextPageCalls_def)

text \<open>
  C4 (as stated, refuted). The claim asks only for \<open>clientHeight = scrollHeight\<close> and
  \<open>hasMore = true\<close>. With a request in flight (\<open>isMediaLoading = true\<close>) the guard of line 94
  returns first, and \<open>setNextPage\<close> is not invoked.
\<close>

theorem loadNextPageIfNeeded_underfull_while_loading:
  "nextPageCalls (loadNextPageIfNeeded
     (Some \<lparr>scrollTop = 0, scrollHeight = 400, clientHeight = 400, offsetWidth = 300,
        clientWidth = 300, paddingLeft = 24, stylePaddingRight = None\<rparr>)
     \<lparr>providerType = ''unsplash'', searchTerm = None, selectedCategoryId = None,
       isMediaLoading = True, isMediaLoaded = True, hasMore = True\<rparr>) = 0"
  by (simp add: loadNextPageIfNeeded_def nextPageCalls_def)

text \<open>
  C4 (amended). For every container whose \<open>clientHeight\<close> equals its \<open>scrollHeight\<close>
  (no overflow), with \<open>hasMore = true\<close>, \<open>isMediaLoaded = true\<close> and
  \<open>isMediaLoading = false\<close>, an evaluation of \<open>loadNextPageIfNeeded\<close> invokes
  \<open>setNextPage\<close> (exactly once), whatever \<open>scrollTop\<close> is, zero included.
\<close>

theorem loadNextPageIfNeeded_underfull:
  assumes "clientHeight n = scrollHeight n"
    and "hasMore p" and "isMediaLoaded p" and "\<not> isMediaLoading p"
  shows "loadNextPageIfNeeded (Some n) p = Inr [SetNextPage]
    \<and> nextPageCalls (loadNextPageIfNeeded (Some n) p) = 1"
  using assms by (simp add: loadNextPageIfNeeded_def nextPageCalls_def Let_def)

theorem loadNextPageIfNeeded_underfull_witness:
  "nextPageCalls (loadNextPageIfNeeded
     (Some \<lparr>scrollTop = 0, scrollHeight = 400, clientHeight = 400, offsetWidth = 300,
        clientWidth = 300, paddingLeft = 24, stylePaddingRight = None\<rparr>)
     \<lparr>providerType = ''unsplash'', searchTerm = None, selectedCategoryId = None,
       isMediaLoading = False, isMediaLoaded = True, hasMore = True\<rparr>) = 1"
  using loadNextPageIfNeeded_underfull
    [of "\<lparr>scrollTop = 0, scrollHeight = 400, clientHeight = 400, offsetWidth = 300,
          clientWidth = 300, paddingLeft = 24, stylePaddingRight = None\<rparr>"
        "\<lparr>providerType = ''unsplash'', searchTerm = None, selectedCategoryId = None,
          isMediaLoading = False, isMediaLoaded = True, hasMore = True\<rparr>"]
  by (simp add: nextPageCalls_def)

text \<open>
  C9. One evaluation of \<open>loadNextPageIfNeeded\<close> invokes \<open>setNextPage\<close> at most once, for
  every container and every props: each of the two triggers returns right after its call,
  so a container that is both within \<open>ROOT_MARGIN\<close> of its bottom and without overflow
  still gets a single call.
\<close>

theorem loadNextPageIfNeeded_at_most_once:
  "nextPageCalls (loadNextPageIfNeeded r p) \<le> 1"
  by (cases r) (simp_all add: loadNextPageIfNeeded_def nextPageCalls_def Let_def)

theorem loadNextPageIfNeeded_at_most_once_witness:
  "400 - 0 \<le> 400 + ROOT_MARGIN \<and>
   nextPageCalls (loadNextPageIfNeeded
     (Some \<lparr>scrollTop = 0, scrollHeight = 400, clientHeight = 400, offsetWidth = 300,
        clientWidth = 300, paddingLeft = 24, stylePaddingRight = None\<rparr>)
     \<lparr>providerType = ''unsplash'', searchTerm = None, selectedCategoryId = None,
       isMediaLoading = False, isMediaLoaded = True, hasMore = True\<rparr>) \<le> 1"
  using loadNextPageIfNeeded_at_most_once
    [of "Some \<lparr>scrollTop = 0, scrollHeight = 400, clientHeight = 400, offsetWidth = 300,
          clientWidth = 300, paddingLeft = 24, stylePaddingRight = None\<rparr>"
        "\<lparr>providerType = ''unsplash'', searchTerm = None, selectedCategoryId = None,
          isMediaLoading = False, isMediaLoaded = True, hasMore = True\<rparr>"]
  by (simp add: ROOT_MARGIN_def)

section \<open>Properties of the effects\<close>

text \<open>
  C6. After a render of the mounted gallery, with the container attached, the effect of
  lines 115 to 117 calls \<open>scrollTo(0, 0)\<close> on the container exactly when \<open>searchTerm\<close> or
  \<open>selectedCategoryId\<close> differs from the render before (\<open>p\<close> are the props of the render
  before, \<open>p'\<close> the new ones). Every change of one of the two resets the scroll position,
  and a render in which both are unchanged makes no call, whatever else changed in the
  props or in the container.
\<close>

theorem scrollResetEffect_on_change:
  "scrollResetEffect (Some (searchTerm p, selectedCategoryId p)) p' (Some n) =
     Inr (if searchTerm p' \<noteq> searchTerm p \<or> selectedCategoryId p' \<noteq> selectedCategoryId p
          then [ScrollTo 0 0] else [])"
  by (auto simp add: scrollResetEffect_def depsChanged_def scrollToTop_def)

theorem scrollResetEffect_on_change_witness:
  "scrollResetEffect (Some (None, Some ''nature''))
     \<lparr>providerType = ''unsplash'', searchTerm = Some ''cat'', selectedCategoryId = Some ''nature'',
       isMediaLoading = False, isMediaLoaded = True, hasMore = True\<rparr>
     (Some \<lparr>scrollTop = 750, scrollHeight = 1000, clientHeight = 200, offsetWidth = 300,
        clientWidth = 285, paddingLeft = 24, stylePaddingRight = None\<rparr>) = Inr [ScrollTo 0 0]"
  using scrollResetEffect_on_change
    [of "\<lparr>providerType = ''unsplash'', searchTerm = None, selectedCategoryId = Some ''nature'',
          isMediaLoading = True, isMediaLoaded = False, hasMore = True\<rparr>"
        "\<lparr>providerType = ''unsplash'', searchTerm = Some ''cat'',
          selectedCategoryId = Some ''nature'',
          isMediaLoading = False, isMediaLoaded = True, hasMore = True\<rparr>"
        "\<lparr>scrollTop = 750, scrollHeight = 1000, clientHeight = 200, offsetWidth = 300,
          clientWidth = 285, paddingLeft = 24, stylePaddingRight = None\<rparr>"]
  by simp

text \<open>
  C7. With no element in the container ref (\<open>refContainer.current\<close> is \<open>null\<close>), each of the
  three paths returns normally and does nothing: \<open>loadNextPageIfNeeded\<close> makes no call (so
  \<open>setNextPage\<close> is not invoked), the scroll reset effect makes no call, and the listener
  effect attaches no listener and returns no cleanup. None of them raises an exception.
\<close>

theorem no_container_no_op:
  "loadNextPageIfNeeded None p = Inr []
   \<and> scrollResetEffect prevDeps p None = Inr []
   \<and> listenerEffect None = Inr ([], None)"
  by (simp add: loadNextPageIfNeeded_def scrollResetEffect_def scrollToTop_def listenerEffect_def)

theorem no_container_no_op_witness:
  "loadNextPageIfNeeded None
     \<lparr>providerType = ''unsplash'', searchTerm = Some ''cat'', selectedCategoryId = None,
       isMediaLoading = False, isMediaLoaded = True, hasMore = True\<rparr> = Inr []
   \<and> scrollResetEffect (Some (None, None))
     \<lparr>providerType = ''unsplash'', searchTerm = Some ''cat'', selectedCategoryId = None,
       isMediaLoading = False, isMediaLoaded = True, hasMore = True\<rparr> None = Inr []
   \<and> listenerEffect None = Inr ([], None)"
  using no_container_no_op
    [of "\<lparr>providerType = ''unsplash'', searchTerm = Some ''cat'', selectedCategoryId = None,
          isMediaLoading = False, isMediaLoaded = True, hasMore = True\<rparr>"
        "Some (None, None)"]
  by simp

text \<open>
  C8. The padding is to follow every change of the scrollbar width, a change to zero
  included: \<open>padding-right\<close> should become \<open>padding-left\<close> minus the new width. Here the
  scrollbar was 15 pixels wide and \<open>padding-right\<close> had been set to \<open>24 - 15 = 9\<close>; the
  scrollbar disappears. The callback ref sets \<open>scrollbarWidth\<close> to 0 and the layout effect
  returns at its first line (line 80): \<open>padding-right\<close> stays 9 and is not recomputed to
  \<open>24 - 0\<close>, so the list is no longer centred, against the comment of line 76.
\<close>

theorem commitContainer_scrollbar_gone:
  "commitContainer
     \<lparr>scrollTop = 0, scrollHeight = 400, clientHeight = 400, offsetWidth = 300,
       clientWidth = 300, paddingLeft = 24, stylePaddingRight = Some 9\<rparr>
     \<lparr>refContainer = Some \<lparr>scrollTop = 0, scrollHeight = 400, clientHeight = 400,
        offsetWidth = 300, clientWidth = 300, paddingLeft = 24, stylePaddingRight = Some 9\<rparr>,
      scrollbarWidth = 15\<rparr>
   = Inr \<lparr>refContainer = Some \<lparr>scrollTop = 0, scrollHeight = 400, clientHeight = 400,
        offsetWidth = 300, clientWidth = 300, paddingLeft = 24, stylePaddingRight = Some 9\<rparr>,
      scrollbarWidth = 0\<rparr>
   \<and> paddingRightAfter (commitContainer
     \<lparr>scrollTop = 0, scrollHeight = 400, clientHeight = 400, offsetWidth = 300,
       clientWidth = 300, paddingLeft = 24, stylePaddingRight = Some 9\<rparr>
     \<lparr>refContainer = Some \<lparr>scrollTop = 0, scrollHeight = 400, clientHeight = 400,
        offsetWidth = 300, clientWidth = 300, paddingLeft = 24, stylePaddingRight = Some 9\<rparr>,
      scrollbarWidth = 15\<rparr>) \<noteq> Some (24 - (300 - 300))"
  by (simp add: commitContainer_def paddingLayoutEffect_def depsChanged_def
      refCallbackContainer_def recalculatePadding_def paddingRightAfter_def)

text \<open>
  The other path of the same effect: when the new scrollbar width differs from the one the
  gallery holds and is not zero, the commit stores the new width, raises no exception, and
  sets the container's \<open>padding-right\<close> to its computed \<open>padding-left\<close> minus the new width.
\<close>

lemma commitContainer_padding:
  assumes "offsetWidth e - clientWidth e \<noteq> scrollbarWidth s"
    and "offsetWidth e - clientWidth e \<noteq> 0"
  shows "(\<exists>s'. commitContainer e s = Inr s' \<and> scrollbarWidth s' = offsetWidth e - clientWidth e)
    \<and> paddingRightAfter (commitContainer e s)
        = Some (paddingLeft e - (offsetWidth e - clientWidth e))"
  using assms
  by (simp add: commitContainer_def paddingLayoutEffect_def depsChanged_def
      refCallbackContainer_def recalculatePadding_def paddingRightAfter_def Let_def)

lemma commitContainer_padding_example:
  "paddingRightAfter (commitContainer
     \<lparr>scrollTop = 0, scrollHeight = 1000, clientHeight = 400, offsetWidth = 300,
       clientWidth = 285, paddingLeft = 24, stylePaddingRight = None\<rparr>
     initialContainer) = Some 9"
  using commitContainer_padding
    [of "\<lparr>scrollTop = 0, scrollHeight = 1000, clientHeight = 400, offsetWidth = 300,
          clientWidth = 285, paddingLeft = 24, stylePaddingRight = None\<rparr>"
        initialContainer]
  by (simp add: initialContainer_def)

section \<open>Properties of updateForResizeEvent\<close>

text \<open>
  C10. \<open>updateForResizeEvent\<close> returns \<open>null\<close> if and only if \<open>direction[0]\<close> and
  \<open>direction[1]\<close> are both 0. When \<open>direction[1]\<close> is not 0 it returns the object with
  \<open>fontSize\<close> and \<open>skipUpdates\<close>, never the one with \<open>height\<close>, whatever \<open>direction[0]\<close> is.
  When \<open>direction[1]\<close> is 0 and \<open>direction[0]\<close> is not, it returns the object with \<open>height\<close>.
\<close>

theorem updateForResizeEvent_cases:
  "(updateForResizeEvent fit textHeight px minSize el direction newWidth newHeight delta = None
      \<longleftrightarrow> jsIndex direction 0 = Some 0 \<and> jsIndex direction 1 = Some 0)
   \<and> (jsIndex direction 1 \<noteq> Some 0 \<longrightarrow>
        updateForResizeEvent fit textHeight px minSize el direction newWidth newHeight delta
          = Some (FontSizeUpdate
                    (px (fit el (if newWidth = 0 then width el else newWidth) newHeight))
                    (\<not> isSizingUp delta
                     \<and> px (fit el (if newWidth = 0 then width el else newWidth) newHeight)
                         < minSize)))
   \<and> (jsIndex direction 1 = Some 0 \<and> jsIndex direction 0 \<noteq> Some 0 \<longrightarrow>
        updateForResizeEvent fit textHeight px minSize el direction newWidth newHeight delta
          = Some (HeightUpdate (px (textHeight el newWidth))))"
  by (simp add: updateForResizeEvent_def Let_def)

theorem updateForResizeEvent_cases_witness:
  "updateForResizeEvent (\<lambda>e w h. h / 2) (\<lambda>e w. w / 4) (\<lambda>x. x) 8 \<lparr>width = 200\<rparr>
      [0, 0] 100 40 (Some [1, 1]) = None
   \<and> updateForResizeEvent (\<lambda>e w h. h / 2) (\<lambda>e w. w / 4) (\<lambda>x. x) 8 \<lparr>width = 200\<rparr>
      [1, 1] 100 40 (Some [1, 1]) = Some (FontSizeUpdate 20 False)
   \<and> updateForResizeEvent (\<lambda>e w h. h / 2) (\<lambda>e w. w / 4) (\<lambda>x. x) 8 \<lparr>width = 200\<rparr>
      [1, 0] 100 40 (Some [1, 1]) = Some (HeightUpdate 25)"
  using
    updateForResizeEvent_cases
      [where fit = "\<lambda>e w h. h / 2" and textHeight = "\<lambda>e w. w / 4" and px = "\<lambda>x. x"
         and minSize = 8 and el = "\<lparr>width = 200\<rparr>" and direction = "[0, 0]"
         and newWidth = 100 and newHeight = 40 and delta = "Some [1, 1]"]
    updateForResizeEvent_cases
      [where fit = "\<lambda>e w h. h / 2" and textHeight = "\<lambda>e w. w / 4" and px = "\<lambda>x. x"
         and minSize = 8 and el = "\<lparr>width = 200\<rparr>" and direction = "[1, 1]"
         and newWidth = 100 and newHeight = 40 and delta = "Some [1, 1]"]
    updateForResizeEvent_cases
      [where fit = "\<lambda>e w h. h / 2" and textHeight = "\<lambda>e w. w / 4" and px = "\<lambda>x. x"
         and minSize = 8 and el = "\<lparr>width = 200\<rparr>" and direction = "[1, 0]"
         and newWidth = 100 and newHeight = 40 and delta = "Some [1, 1]"]
  by (simp add: jsIndex_def isSizingUp_def)

end
